theory Spec2Isabelle
  imports Main
begin

section \<open>StreamWeaverProcessor (src/StreamProcessor.js)\<close>

subsection \<open>Messages, JavaScript values, exceptions\<close>

text \<open>
  A message is the object \<^verbatim>\<open>{ id, data }\<close> of the demo stream. The field \<^verbatim>\<open>id\<close> is
  written \<open>id_msg\<close> (\<open>id\<close> is the identity function of HOL).
\<close>

record message =
  id_msg :: string
  data :: string

text \<open>
  The object literal that \<^verbatim>\<open>processMessage\<close> returns is kept as JavaScript has it: a list
  of property names with their values, in the order of the literal. A property that is not
  in the list is \<^verbatim>\<open>undefined\<close> (\<open>map_of r k = None\<close>).
\<close>

datatype js_value = JString string | JNumber int | JBoolean bool

type_synonym js_object = "(string \<times> js_value) list"

datatype js_error = Thrown string

subsection \<open>The processor's state\<close>

text \<open>
  \<^verbatim>\<open>this.processedMessages\<close> is a \<^verbatim>\<open>Set\<close> of message ids. The field \<open>trace\<close> is a history
  variable, not a field of the class: it records, in program order, every
  \<^verbatim>\<open>processedMessages.add\<close> (\<open>Marked\<close>) and every call of \<^verbatim>\<open>executeBusinessLogic\<close>
  (\<open>Executed\<close>, with \<open>None\<close> when the call returned and \<open>Some e\<close> when it threw \<open>e\<close>).
  No function below reads it.
\<close>

datatype event = Marked string | Executed message "js_error option"

record processor =
  processedMessages :: "string set"
  trace :: "event list"

text \<open>A new processor has an empty set (the line it prints to the console is left out).\<close>

definition constructor :: processor where
  "constructor = \<lparr>processedMessages = {}, trace = []\<rparr>"

subsection \<open>The business effect\<close>

text \<open>
  \<^verbatim>\<open>processMessage\<close> calls \<^verbatim>\<open>this.executeBusinessLogic(message)\<close>, a method looked up on
  \<^verbatim>\<open>this\<close> that the source calls a placeholder. The processor is therefore modelled over
  an arbitrary effect: a function of the message that either returns (\<open>None\<close>) or throws
  (\<open>Some e\<close>) and does not touch the processor. The method of the class itself computes
  \<^verbatim>\<open>Math.random() * 50\<close> into a local that is never used, and returns: it is the effect that
  always succeeds.
\<close>

type_synonym effect = "message \<Rightarrow> js_error option"

definition executeBusinessLogic :: effect where
  "executeBusinessLogic message = None"

definition call_effect :: "effect \<Rightarrow> processor \<Rightarrow> message \<Rightarrow> js_error option \<times> processor" where
  "call_effect exec s message =
     (exec message, s\<lparr>trace := trace s @ [Executed message (exec message)]\<rparr>)"

subsection \<open>processMessage\<close>

text \<open>
  \<open>startTime\<close> and \<open>endTime\<close> are the two readings of \<^verbatim>\<open>Date.now()\<close>. The function has no
  \<^verbatim>\<open>try\<close>: an exception of the effect leaves it (\<open>Inl\<close>) after the id has been added, and
  the state keeps the id.
\<close>

definition add_id :: "processor \<Rightarrow> string \<Rightarrow> processor" where
  "add_id s messageId =
     s\<lparr>processedMessages := insert messageId (processedMessages s),
       trace := trace s @ [Marked messageId]\<rparr>"

definition processMessage ::
  "effect \<Rightarrow> processor \<Rightarrow> message \<Rightarrow> int \<Rightarrow> int \<Rightarrow> (js_error + js_object) \<times> processor" where
  "processMessage exec s message startTime endTime =
     (let messageId = id_msg message;
          isNew = (messageId \<notin> processedMessages s);
          (thrown, s') =
            (if isNew then call_effect exec (add_id s messageId) message else (None, s))
      in case thrown of
           Some e \<Rightarrow> (Inl e, s')
         | None \<Rightarrow>
             (let durationMs = endTime - startTime
              in (Inr [(''id'', JString messageId),
                       (''durationMs'', JNumber durationMs),
                       (''processed'', JBoolean isNew),
                       (''isNew'', JBoolean isNew)], s')))"

text \<open>
  \<^verbatim>\<open>processedMessages.size\<close>. Every set that a processor reaches from \<open>constructor\<close> is
  finite, where \<open>card\<close> is the number of elements.
\<close>

definition getUniqueCount :: "processor \<Rightarrow> nat" where
  "getUniqueCount s = card (processedMessages s)"

subsection \<open>The demo: the stream and its loop\<close>

definition messageStream :: "message list" where
  "messageStream =
     [\<lparr>id_msg = ''A1'', data = ''Order placed''\<rparr>,
      \<lparr>id_msg = ''B2'', data = ''Inventory check''\<rparr>,
      \<lparr>id_msg = ''A1'', data = ''Order placed (Duplicate)''\<rparr>,
      \<lparr>id_msg = ''C3'', data = ''Payment confirmed''\<rparr>,
      \<lparr>id_msg = ''B2'', data = ''Inventory check (Duplicate)''\<rparr>,
      \<lparr>id_msg = ''D4'', data = ''Shipping label printed''\<rparr>]"

text \<open>JavaScript's truthiness, for \<^verbatim>\<open>result.isNew ? ... : ...\<close>.\<close>

fun truthy :: "js_value option \<Rightarrow> bool" where
  "truthy None = False"
| "truthy (Some (JBoolean b)) = b"
| "truthy (Some (JNumber n)) = (n \<noteq> 0)"
| "truthy (Some (JString t)) = (t \<noteq> [])"

definition status :: "js_object \<Rightarrow> string" where
  "status result =
     (if truthy (map_of result ''isNew'') then ''NEW (Processed)'' else ''DUPLICATE (Skipped)'')"

text \<open>
  \<^verbatim>\<open>messageStream.forEach\<close>: the messages are delivered in order to one processor. \<open>clock\<close>
  is the sequence of all readings of \<^verbatim>\<open>Date.now()\<close>; the delivery with index \<open>k\<close> takes the
  readings \<open>2 * k\<close> and \<open>2 * k + 1\<close>. Where the demo prints a line per record, the
  loop here collects the records; an exception ends it.
\<close>

fun forEach ::
  "effect \<Rightarrow> (nat \<Rightarrow> int) \<Rightarrow> nat \<Rightarrow> processor \<Rightarrow> message list
     \<Rightarrow> js_object list \<times> js_error option \<times> processor" where
  "forEach exec clock k s [] = ([], None, s)"
| "forEach exec clock k s (msg # msgs) =
     (case processMessage exec s msg (clock (2 * k)) (clock (2 * k + 1)) of
        (Inl e, s') \<Rightarrow> ([], Some e, s')
      | (Inr result, s') \<Rightarrow>
          (case forEach exec clock (Suc k) s' msgs of
             (results, thrown, s'') \<Rightarrow> (result # results, thrown, s'')))"

text \<open>How often the effect was called for the id \<open>i\<close>, read off the history.\<close>

fun executions :: "string \<Rightarrow> event list \<Rightarrow> nat" where
  "executions i [] = 0"
| "executions i (Marked j # es) = executions i es"
| "executions i (Executed m r # es) = (if id_msg m = i then 1 else 0) + executions i es"

subsection \<open>Calls of the public methods\<close>

text \<open>
  A client holds the processor and calls its three methods in any order. A call that throws
  leaves the state as it was at the throw.
\<close>

datatype method_call =
    ProcessMessage message int int
  | ExecuteBusinessLogic message
  | GetUniqueCount

fun call_method :: "effect \<Rightarrow> processor \<Rightarrow> method_call \<Rightarrow> processor" where
  "call_method exec s (ProcessMessage message startTime endTime) =
     snd (processMessage exec s message startTime endTime)"
| "call_method exec s (ExecuteBusinessLogic message) = snd (call_effect exec s message)"
| "call_method exec s GetUniqueCount = s"

subsection \<open>Orderings of the history\<close>

text \<open>
  \<open>commit_after_effect done es\<close>: in the history \<open>es\<close>, every id is marked only after an
  effect for that id has returned without an exception (\<open>done\<close> holds the ids whose effect
  has already succeeded). This is write-after-effect ordering.
\<close>

fun commit_after_effect :: "string set \<Rightarrow> event list \<Rightarrow> bool" where
  "commit_after_effect done [] = True"
| "commit_after_effect done (Marked i # es) = (i \<in> done \<and> commit_after_effect done es)"
| "commit_after_effect done (Executed m None # es) =
     commit_after_effect (insert (id_msg m) done) es"
| "commit_after_effect done (Executed m (Some e) # es) = commit_after_effect done es"

section \<open>Properties\<close>

lemma processMessage_new:
  "id_msg m \<notin> processedMessages s \<Longrightarrow> exec m = None \<Longrightarrow>
   processMessage exec s m t0 t1 =
     (Inr [(''id'', JString (id_msg m)), (''durationMs'', JNumber (t1 - t0)),
           (''processed'', JBoolean True), (''isNew'', JBoolean True)],
      s\<lparr>processedMessages := insert (id_msg m) (processedMessages s),
        trace := trace s @ [Marked (id_msg m), Executed m None]\<rparr>)"
  by (simp add: processMessage_def call_effect_def add_id_def Let_def)

lemma processMessage_seen:
  "id_msg m \<in> processedMessages s \<Longrightarrow>
   processMessage exec s m t0 t1 =
     (Inr [(''id'', JString (id_msg m)), (''durationMs'', JNumber (t1 - t0)),
           (''processed'', JBoolean False), (''isNew'', JBoolean False)], s)"
  by (simp add: processMessage_def Let_def)

lemma processMessage_throws:
  "id_msg m \<notin> processedMessages s \<Longrightarrow> exec m = Some e \<Longrightarrow>
   processMessage exec s m t0 t1 =
     (Inl e,
      s\<lparr>processedMessages := insert (id_msg m) (processedMessages s),
        trace := trace s @ [Marked (id_msg m), Executed m (Some e)]\<rparr>)"
  by (simp add: processMessage_def call_effect_def add_id_def Let_def)

lemma processMessage_placeholder_new:
  "id_msg m \<notin> processedMessages s \<Longrightarrow>
   processMessage executeBusinessLogic s m t0 t1 =
     (Inr [(''id'', JString (id_msg m)), (''durationMs'', JNumber (t1 - t0)),
           (''processed'', JBoolean True), (''isNew'', JBoolean True)],
      s\<lparr>processedMessages := insert (id_msg m) (processedMessages s),
        trace := trace s @ [Marked (id_msg m), Executed m None]\<rparr>)"
  by (rule processMessage_new) (simp_all add: executeBusinessLogic_def)

lemma executions_append: "executions i (xs @ ys) = executions i xs + executions i ys"
  by (induction xs rule: executions.induct) auto

text \<open>
  The loop with the placeholder effect, from any state: it never throws, it returns one
  record per message, the seen-set gains exactly the ids of the messages, and the effect
  runs once more for an id exactly when the id is delivered and was not seen before.
\<close>

lemma forEach_placeholder:
  "forEach executeBusinessLogic clock k s ms = (rs, err, s') \<Longrightarrow>
   err = None \<and> processedMessages s' = processedMessages s \<union> id_msg ` set ms \<and>
   length rs = length ms \<and>
   executions i (trace s') = executions i (trace s) +
      (if i \<in> id_msg ` set ms - processedMessages s then 1 else 0)"
proof (induction ms arbitrary: k s rs err s')
  case Nil
  then show ?case by simp
next
  case (Cons m ms)
  show ?case
  proof (cases "id_msg m \<in> processedMessages s")
    case True
    from Cons.prems True obtain rs' where
      run: "forEach executeBusinessLogic clock (Suc k) s ms = (rs', err, s')" and
      rs: "rs =
        [(''id'', JString (id_msg m)),
         (''durationMs'', JNumber (clock (2 * k + 1) - clock (2 * k))),
         (''processed'', JBoolean False), (''isNew'', JBoolean False)] # rs'"
      by (auto simp: processMessage_seen split: prod.splits)
    from Cons.IH [OF run] True rs show ?thesis
      by auto
  next
    case False
    define s1 where
      "s1 = s\<lparr>processedMessages := insert (id_msg m) (processedMessages s),
               trace := trace s @ [Marked (id_msg m), Executed m None]\<rparr>"
    from Cons.prems False obtain rs' where
      run: "forEach executeBusinessLogic clock (Suc k) s1 ms = (rs', err, s')" and
      rs: "rs =
        [(''id'', JString (id_msg m)),
         (''durationMs'', JNumber (clock (2 * k + 1) - clock (2 * k))),
         (''processed'', JBoolean True), (''isNew'', JBoolean True)] # rs'"
      by (auto simp: processMessage_placeholder_new s1_def split: prod.splits)
    from Cons.IH [OF run] False rs show ?thesis
      by (auto simp: s1_def executions_append)
  qed
qed

subsection \<open>C1: the effect runs exactly once per distinct id\<close>

text \<open>
  C1. For every sequence of messages delivered to a fresh processor (with the class's own
  \<^verbatim>\<open>executeBusinessLogic\<close>) and every clock, all messages are processed without an
  exception, and the business effect has been invoked exactly once for each id that occurs
  in the sequence (and never for any other id), however often the id is delivered again.
\<close>

theorem effect_once_per_id:
  "fst (snd (forEach executeBusinessLogic clock 0 constructor msgs)) = None \<and>
   length (fst (forEach executeBusinessLogic clock 0 constructor msgs)) = length msgs \<and>
   executions i (trace (snd (snd (forEach executeBusinessLogic clock 0 constructor msgs)))) =
     (if i \<in> id_msg ` set msgs then 1 else 0)"
proof -
  obtain rs err s' where
    run: "forEach executeBusinessLogic clock 0 constructor msgs = (rs, err, s')"
    by (cases "forEach executeBusinessLogic clock 0 constructor msgs") auto
  have fresh: "processedMessages constructor = {}" "trace constructor = []"
    by (simp_all add: constructor_def)
  from forEach_placeholder [OF run, of i] have
    "err = None \<and> length rs = length msgs \<and>
     executions i (trace s') = (if i \<in> id_msg ` set msgs then 1 else 0)"
    by (simp add: fresh)
  then show ?thesis
    by (simp only: run fst_conv snd_conv)
qed

subsection \<open>C2: a duplicate has no side effect\<close>

text \<open>
  C2. For every message whose id is already in \<^verbatim>\<open>processedMessages\<close>, and whatever the
  effect is, \<^verbatim>\<open>processMessage\<close> returns the record of a duplicate (\<open>processed\<close> and
  \<open>isNew\<close> false, status \<^verbatim>\<open>DUPLICATE (Skipped)\<close>) and the state after the call is the state
  before it: the seen-set is unchanged, nothing is marked and the effect is not invoked.
\<close>

theorem duplicate_no_side_effect:
  assumes "id_msg m \<in> processedMessages s"
  shows "processMessage exec s m t0 t1 =
           (Inr [(''id'', JString (id_msg m)), (''durationMs'', JNumber (t1 - t0)),
                 (''processed'', JBoolean False), (''isNew'', JBoolean False)], s) \<and>
         status (projr (fst (processMessage exec s m t0 t1))) = ''DUPLICATE (Skipped)'' \<and>
         processedMessages (snd (processMessage exec s m t0 t1)) = processedMessages s \<and>
         trace (snd (processMessage exec s m t0 t1)) = trace s"
  using assms by (simp add: processMessage_seen status_def)

theorem duplicate_no_side_effect_witness:
  "''A1'' \<in> {''A1''} \<and>
   processMessage (\<lambda>m. Some (Thrown ''never called''))
     \<lparr>processedMessages = {''A1''}, trace = [Marked ''A1'', Executed (hd messageStream) None]\<rparr>
     (messageStream ! 2) 7 9 =
     (Inr [(''id'', JString ''A1''), (''durationMs'', JNumber 2),
           (''processed'', JBoolean False), (''isNew'', JBoolean False)],
      \<lparr>processedMessages = {''A1''}, trace = [Marked ''A1'', Executed (hd messageStream) None]\<rparr>)"
  using duplicate_no_side_effect
    [of "messageStream ! 2"
        "\<lparr>processedMessages = {''A1''}, trace = [Marked ''A1'', Executed (hd messageStream) None]\<rparr>"
        "\<lambda>m. Some (Thrown ''never called'')" 7 9]
  by (simp add: messageStream_def)

subsection \<open>C3: a failing effect\<close>

text \<open>
  The claim fails on the code. With an effect that throws for \<^verbatim>\<open>A1\<close>, the first delivery of
  \<^verbatim>\<open>A1\<close> to a fresh processor returns no record at all (the exception leaves
  \<^verbatim>\<open>processMessage\<close>), \<^verbatim>\<open>A1\<close> stays in the seen-set, and the next delivery of \<^verbatim>\<open>A1\<close>, now
  with the effect that succeeds, is reported as a duplicate and its effect is not run.
\<close>

theorem no_rollback_counterexample:
  "fst (processMessage (\<lambda>m. Some (Thrown ''effect failed'')) constructor
          (hd messageStream) 0 1) = Inl (Thrown ''effect failed'') \<and>
   ''A1'' \<in> processedMessages (snd (processMessage (\<lambda>m. Some (Thrown ''effect failed''))
          constructor (hd messageStream) 0 1)) \<and>
   fst (processMessage executeBusinessLogic
          (snd (processMessage (\<lambda>m. Some (Thrown ''effect failed'')) constructor
             (hd messageStream) 0 1))
          (hd messageStream) 2 3) =
     Inr [(''id'', JString ''A1''), (''durationMs'', JNumber 1),
          (''processed'', JBoolean False), (''isNew'', JBoolean False)] \<and>
   executions ''A1'' (trace (snd (processMessage executeBusinessLogic
          (snd (processMessage (\<lambda>m. Some (Thrown ''effect failed'')) constructor
             (hd messageStream) 0 1))
          (hd messageStream) 2 3))) = 1"
  by (simp add: processMessage_def call_effect_def add_id_def Let_def constructor_def
      messageStream_def executeBusinessLogic_def)

text \<open>
  C3, as amended. If the effect for a message with a new id \<open>X\<close> throws, \<^verbatim>\<open>processMessage\<close>
  returns no outcome record: the exception propagates to the caller. The id is not rolled
  back: \<open>X\<close> has been added to \<^verbatim>\<open>processedMessages\<close> and stays there, so every later delivery
  of a message with id \<open>X\<close>, whatever its effect would do, is reported as a duplicate and
  leaves the state as it is.
\<close>

theorem effect_failure_keeps_id:
  assumes "id_msg m \<notin> processedMessages s" and "exec m = Some e"
  shows "fst (processMessage exec s m t0 t1) = Inl e \<and>
         processedMessages (snd (processMessage exec s m t0 t1)) =
           insert (id_msg m) (processedMessages s) \<and>
         trace (snd (processMessage exec s m t0 t1)) =
           trace s @ [Marked (id_msg m), Executed m (Some e)] \<and>
         (\<forall>m' exec' t2 t3. id_msg m' = id_msg m \<longrightarrow>
            processMessage exec' (snd (processMessage exec s m t0 t1)) m' t2 t3 =
              (Inr [(''id'', JString (id_msg m)), (''durationMs'', JNumber (t3 - t2)),
                    (''processed'', JBoolean False), (''isNew'', JBoolean False)],
               snd (processMessage exec s m t0 t1)))"
proof -
  let ?s' = "s\<lparr>processedMessages := insert (id_msg m) (processedMessages s),
                trace := trace s @ [Marked (id_msg m), Executed m (Some e)]\<rparr>"
  have first: "processMessage exec s m t0 t1 = (Inl e, ?s')"
    using assms by (rule processMessage_throws)
  have later: "processMessage exec' ?s' m' t2 t3 =
      (Inr [(''id'', JString (id_msg m)), (''durationMs'', JNumber (t3 - t2)),
            (''processed'', JBoolean False), (''isNew'', JBoolean False)], ?s')"
    if "id_msg m' = id_msg m" for m' exec' t2 t3
    using that processMessage_seen [of m' ?s' exec' t2 t3] by simp
  show ?thesis
    unfolding first fst_conv snd_conv using later by simp
qed

theorem effect_failure_keeps_id_witness:
  "''A1'' \<notin> processedMessages constructor \<and>
   fst (processMessage (\<lambda>m. Some (Thrown ''effect failed'')) constructor
          (hd messageStream) 0 1) = Inl (Thrown ''effect failed'') \<and>
   processedMessages (snd (processMessage (\<lambda>m. Some (Thrown ''effect failed'')) constructor
          (hd messageStream) 0 1)) = {''A1''} \<and>
   processMessage executeBusinessLogic
       (snd (processMessage (\<lambda>m. Some (Thrown ''effect failed'')) constructor
          (hd messageStream) 0 1))
       (messageStream ! 2) 2 5 =
     (Inr [(''id'', JString ''A1''), (''durationMs'', JNumber 3),
           (''processed'', JBoolean False), (''isNew'', JBoolean False)],
      snd (processMessage (\<lambda>m. Some (Thrown ''effect failed'')) constructor
          (hd messageStream) 0 1))"
proof -
  have new: "id_msg (hd messageStream) \<notin> processedMessages constructor"
    by (simp add: constructor_def)
  have same: "id_msg (messageStream ! 2) = id_msg (hd messageStream)"
    by (simp add: messageStream_def)
  have a1: "id_msg (hd messageStream) = ''A1''"
    by (simp add: messageStream_def)
  have empty: "processedMessages constructor = {}"
    by (simp add: constructor_def)
  from effect_failure_keeps_id
    [of "hd messageStream" constructor "\<lambda>m. Some (Thrown ''effect failed'')"
        "Thrown ''effect failed''" 0 1, OF new refl]
  show ?thesis
    using same by (simp add: a1 empty)
qed

subsection \<open>C4: the order of marking and effect\<close>

text \<open>
  The claim fails on the code. On the first delivery of \<^verbatim>\<open>A1\<close> to a fresh processor the
  history is \<open>Marked\<close>, then \<open>Executed\<close>: the id is in \<^verbatim>\<open>processedMessages\<close> before the effect
  has been called, so the history is not in write-after-effect order.
\<close>

theorem mark_precedes_effect_counterexample:
  "trace (snd (processMessage executeBusinessLogic constructor (hd messageStream) 0 1)) =
     [Marked ''A1'', Executed (hd messageStream) None] \<and>
   \<not> commit_after_effect {}
       (trace (snd (processMessage executeBusinessLogic constructor (hd messageStream) 0 1)))"
  by (simp add: processMessage_def call_effect_def add_id_def Let_def constructor_def
      messageStream_def executeBusinessLogic_def)

text \<open>
  C4, as amended. In every execution of \<^verbatim>\<open>processMessage\<close> the id is marked before its
  effect is called (mark-before-effect ordering): for a new id the call appends to the
  history the marking of the id and then, directly after it, the one call of the effect for
  this message; nothing is marked after the effect. For an id that is already marked the
  call appends nothing.
\<close>

theorem mark_before_effect:
  "trace (snd (processMessage exec s m t0 t1)) =
     trace s @
       (if id_msg m \<in> processedMessages s then []
        else [Marked (id_msg m), Executed m (exec m)]) \<and>
   processedMessages (snd (processMessage exec s m t0 t1)) =
     insert (id_msg m) (processedMessages s)"
  by (cases "exec m")
    (auto simp: processMessage_def call_effect_def add_id_def Let_def)

subsection \<open>C5: the demo stream\<close>

text \<open>
  C5. Delivering the stream \<^verbatim>\<open>[A1, B2, A1, C3, B2, D4]\<close> of the demo in order to one fresh
  processor, with the class's own effect and any clock, completes without an exception and
  yields the outcomes new, new, duplicate, new, duplicate, new: as the statuses the demo
  prints, and as the \<open>isNew\<close> and \<open>processed\<close> fields of the six records. Afterwards
  \<^verbatim>\<open>getUniqueCount\<close> returns 4.
\<close>

theorem demo_stream_outcomes:
  "map status (fst (forEach executeBusinessLogic clock 0 constructor messageStream)) =
     [''NEW (Processed)'', ''NEW (Processed)'', ''DUPLICATE (Skipped)'',
      ''NEW (Processed)'', ''DUPLICATE (Skipped)'', ''NEW (Processed)''] \<and>
   map (\<lambda>r. map_of r ''isNew'')
       (fst (forEach executeBusinessLogic clock 0 constructor messageStream)) =
     map (\<lambda>b. Some (JBoolean b)) [True, True, False, True, False, True] \<and>
   map (\<lambda>r. map_of r ''processed'')
       (fst (forEach executeBusinessLogic clock 0 constructor messageStream)) =
     map (\<lambda>b. Some (JBoolean b)) [True, True, False, True, False, True] \<and>
   fst (snd (forEach executeBusinessLogic clock 0 constructor messageStream)) = None \<and>
   getUniqueCount (snd (snd (forEach executeBusinessLogic clock 0 constructor messageStream))) = 4"
  by (simp add: messageStream_def constructor_def processMessage_def Let_def call_effect_def
      add_id_def executeBusinessLogic_def getUniqueCount_def status_def)

subsection \<open>C6: the shape of the returned record\<close>

text \<open>
  The claim fails on the code. The record returned for the first message of the demo has the
  properties \<open>id\<close>, \<open>durationMs\<close>, \<open>processed\<close> and \<open>isNew\<close>; it has no property \<open>outcome\<close>
  (and no \<open>reason\<close>).
\<close>

theorem no_outcome_field_counterexample:
  "fst (processMessage executeBusinessLogic constructor (hd messageStream) 0 1) =
     Inr [(''id'', JString ''A1''), (''durationMs'', JNumber 1),
          (''processed'', JBoolean True), (''isNew'', JBoolean True)] \<and>
   map_of (projr (fst (processMessage executeBusinessLogic constructor (hd messageStream) 0 1)))
     ''outcome'' = None \<and>
   map_of (projr (fst (processMessage executeBusinessLogic constructor (hd messageStream) 0 1)))
     ''reason'' = None"
  by (simp add: processMessage_def call_effect_def add_id_def Let_def constructor_def
      messageStream_def executeBusinessLogic_def)

text \<open>
  C6, as amended. For every message, \<^verbatim>\<open>processMessage\<close> (with the class's own effect) returns
  a record of the shape \<^verbatim>\<open>{id, durationMs, processed, isNew}\<close>: \<open>id\<close> is the id of the message,
  \<open>durationMs\<close> the difference of the two clock readings, and \<open>processed\<close> and \<open>isNew\<close> are
  both the boolean that is true when the id was new (the outcome Processed) and false when
  it was a duplicate (the outcome SkippedDuplicate).
\<close>

theorem returned_record_shape:
  "fst (processMessage executeBusinessLogic s m t0 t1) =
     Inr [(''id'', JString (id_msg m)),
          (''durationMs'', JNumber (t1 - t0)),
          (''processed'', JBoolean (id_msg m \<notin> processedMessages s)),
          (''isNew'', JBoolean (id_msg m \<notin> processedMessages s))]"
  by (simp add: processMessage_def call_effect_def Let_def executeBusinessLogic_def)

subsection \<open>C8: the seen-set only grows\<close>

lemma processMessage_seen_set:
  "processedMessages (snd (processMessage exec s m t0 t1)) =
     insert (id_msg m) (processedMessages s)"
  by (cases "exec m") (auto simp: processMessage_def call_effect_def add_id_def Let_def)

lemma call_method_grows: "processedMessages s \<subseteq> processedMessages (call_method exec s c)"
  by (cases c) (auto simp: processMessage_seen_set call_effect_def)

lemma calls_grow: "processedMessages s \<subseteq> processedMessages (foldl (call_method exec) s calls)"
proof (induction calls arbitrary: s)
  case Nil
  show ?case by simp
next
  case (Cons c calls)
  have "processedMessages s \<subseteq> processedMessages (call_method exec s c)"
    by (rule call_method_grows)
  also have "\<dots> \<subseteq> processedMessages (foldl (call_method exec) (call_method exec s c) calls)"
    by (rule Cons.IH)
  finally show ?case by simp
qed

text \<open>
  C8. No call of \<^verbatim>\<open>processMessage\<close>, \<^verbatim>\<open>executeBusinessLogic\<close> or \<^verbatim>\<open>getUniqueCount\<close> removes an
  id from \<^verbatim>\<open>processedMessages\<close>: after any sequence of calls of the three methods (with the
  class's own effect, or any effect that leaves the processor alone, throwing or not) the
  seen-set contains the seen-set before. So once an id is in the set, every later delivery
  of a message with this id is reported as a duplicate and changes nothing: the code has no
  eviction, no retention window and no rollback.
\<close>

theorem seen_set_only_grows:
  "processedMessages s \<subseteq> processedMessages (foldl (call_method exec) s calls) \<and>
   (\<forall>m exec' t0 t1. id_msg m \<in> processedMessages s \<longrightarrow>
      processMessage exec' (foldl (call_method exec) s calls) m t0 t1 =
        (Inr [(''id'', JString (id_msg m)), (''durationMs'', JNumber (t1 - t0)),
              (''processed'', JBoolean False), (''isNew'', JBoolean False)],
         foldl (call_method exec) s calls))"
proof -
  have grows: "processedMessages s \<subseteq> processedMessages (foldl (call_method exec) s calls)"
    by (rule calls_grow)
  then have "id_msg m \<in> processedMessages (foldl (call_method exec) s calls)"
    if "id_msg m \<in> processedMessages s" for m :: message
    using that by blast
  then show ?thesis
    using grows by (simp add: processMessage_seen)
qed

theorem seen_set_only_grows_witness:
  "''A1'' \<in> processedMessages (snd (processMessage executeBusinessLogic constructor
      (hd messageStream) 0 1)) \<and>
   processMessage executeBusinessLogic
     (foldl (call_method executeBusinessLogic)
        (snd (processMessage executeBusinessLogic constructor (hd messageStream) 0 1))
        [ProcessMessage (messageStream ! 1) 2 3, GetUniqueCount,
         ExecuteBusinessLogic (hd messageStream), ProcessMessage (messageStream ! 2) 4 5])
     (messageStream ! 2) 6 8 =
     (Inr [(''id'', JString ''A1''), (''durationMs'', JNumber 2),
           (''processed'', JBoolean False), (''isNew'', JBoolean False)],
      foldl (call_method executeBusinessLogic)
        (snd (processMessage executeBusinessLogic constructor (hd messageStream) 0 1))
        [ProcessMessage (messageStream ! 1) 2 3, GetUniqueCount,
         ExecuteBusinessLogic (hd messageStream), ProcessMessage (messageStream ! 2) 4 5])"
proof -
  have a1: "id_msg (messageStream ! 2) = ''A1''" "id_msg (hd messageStream) = ''A1''"
    by (simp_all add: messageStream_def)
  have seen: "id_msg (messageStream ! 2) \<in> processedMessages
      (snd (processMessage executeBusinessLogic constructor (hd messageStream) 0 1))"
    by (simp add: processMessage_seen_set a1)
  from seen_set_only_grows
    [of "snd (processMessage executeBusinessLogic constructor (hd messageStream) 0 1)"
        executeBusinessLogic
        "[ProcessMessage (messageStream ! 1) 2 3, GetUniqueCount,
          ExecuteBusinessLogic (hd messageStream), ProcessMessage (messageStream ! 2) 4 5]"]
    seen
  show ?thesis
    by (simp add: a1)
qed

subsection \<open>C9: the payload does not influence admission\<close>

text \<open>
  C9. For any two messages with the same id, whatever their \<open>data\<close>, presented to processors
  with the same seen-set (at any clock readings), \<^verbatim>\<open>processMessage\<close> returns records with the
  same \<open>isNew\<close> and the same \<open>processed\<close> field, and the resulting seen-sets are the same.
\<close>

theorem admission_ignores_payload:
  assumes "id_msg m1 = id_msg m2" and "processedMessages s1 = processedMessages s2"
  shows "\<exists>r1 r2.
           fst (processMessage executeBusinessLogic s1 m1 t0 t1) = Inr r1 \<and>
           fst (processMessage executeBusinessLogic s2 m2 t2 t3) = Inr r2 \<and>
           map_of r1 ''isNew'' = map_of r2 ''isNew'' \<and>
           map_of r1 ''processed'' = map_of r2 ''processed'' \<and>
           processedMessages (snd (processMessage executeBusinessLogic s1 m1 t0 t1)) =
             processedMessages (snd (processMessage executeBusinessLogic s2 m2 t2 t3))"
  using assms
  by (simp add: processMessage_seen_set)
    (simp add: processMessage_def call_effect_def Let_def executeBusinessLogic_def)

theorem admission_ignores_payload_witness:
  "id_msg (hd messageStream) = id_msg (messageStream ! 2) \<and>
   data (hd messageStream) \<noteq> data (messageStream ! 2) \<and>
   map_of (projr (fst (processMessage executeBusinessLogic constructor (hd messageStream) 0 1)))
       ''isNew'' =
     map_of (projr (fst (processMessage executeBusinessLogic constructor (messageStream ! 2) 5 9)))
       ''isNew'' \<and>
   map_of (projr (fst (processMessage executeBusinessLogic constructor (hd messageStream) 0 1)))
       ''processed'' =
     map_of (projr (fst (processMessage executeBusinessLogic constructor (messageStream ! 2) 5 9)))
       ''processed'' \<and>
   processedMessages (snd (processMessage executeBusinessLogic constructor (hd messageStream) 0 1)) =
     processedMessages (snd (processMessage executeBusinessLogic constructor (messageStream ! 2) 5 9))"
proof -
  have same: "id_msg (hd messageStream) = id_msg (messageStream ! 2)"
    and differ: "data (hd messageStream) \<noteq> data (messageStream ! 2)"
    by (simp_all add: messageStream_def)
  from admission_ignores_payload
    [of "hd messageStream" "messageStream ! 2" constructor constructor 0 1 5 9, OF same refl]
  show ?thesis
    using same differ by auto
qed

subsection \<open>C10: processed equals isNew\<close>

text \<open>
  C10. In every record that \<^verbatim>\<open>processMessage\<close> returns, whatever the effect, the field
  \<open>processed\<close> equals the field \<open>isNew\<close>, and both are the boolean saying that the id of the
  message was not in \<^verbatim>\<open>processedMessages\<close> before the call.
\<close>

theorem processed_equals_isNew:
  assumes "processMessage exec s m t0 t1 = (Inr r, s')"
  shows "map_of r ''processed'' = map_of r ''isNew'' \<and>
         map_of r ''isNew'' = Some (JBoolean (id_msg m \<notin> processedMessages s))"
  using assms
  by (cases "exec m")
    (auto simp: processMessage_def call_effect_def add_id_def Let_def split: if_splits)

theorem processed_equals_isNew_witness:
  "processMessage executeBusinessLogic constructor (messageStream ! 3) 10 14 =
     (Inr [(''id'', JString ''C3''), (''durationMs'', JNumber 4),
           (''processed'', JBoolean True), (''isNew'', JBoolean True)],
      \<lparr>processedMessages = {''C3''},
        trace = [Marked ''C3'', Executed (messageStream ! 3) None]\<rparr>) \<and>
   map_of [(''id'', JString ''C3''), (''durationMs'', JNumber 4),
           (''processed'', JBoolean True), (''isNew'', JBoolean True)] ''processed'' =
   map_of [(''id'', JString ''C3''), (''durationMs'', JNumber 4),
           (''processed'', JBoolean True), (''isNew'', JBoolean True)] ''isNew''"
proof -
  have run: "processMessage executeBusinessLogic constructor (messageStream ! 3) 10 14 =
     (Inr [(''id'', JString ''C3''), (''durationMs'', JNumber 4),
           (''processed'', JBoolean True), (''isNew'', JBoolean True)],
      \<lparr>processedMessages = {''C3''},
        trace = [Marked ''C3'', Executed (messageStream ! 3) None]\<rparr>)"
    by (simp add: processMessage_def call_effect_def add_id_def Let_def constructor_def
        messageStream_def executeBusinessLogic_def)
  from processed_equals_isNew [OF run] run show ?thesis
    by simp
qed

end
